theory Spec2Isabelle
  imports Complex_Main "HOL-Library.AList" "HOL-Library.Multiset" "HOL-Library.Sublist"
begin

section \<open>Python strings\<close>

text \<open>
  A Python \<^verbatim>\<open>str\<close> is modelled as a \<open>string\<close> whose characters are ASCII code
  units. \<^verbatim>\<open>str.lower\<close> maps \<^verbatim>\<open>A\<close>..\<^verbatim>\<open>Z\<close> to \<^verbatim>\<open>a\<close>..\<^verbatim>\<open>z\<close>. The classes of
  the \<^verbatim>\<open>re\<close> module are the ASCII parts of Python's tables: \<^verbatim>\<open>\w\<close> is a letter, a
  digit or the underscore, and \<^verbatim>\<open>\s\<close> (which is also what \<^verbatim>\<open>str.strip\<close> removes and
  what \<^verbatim>\<open>str.isspace\<close> accepts) is one of the code units 9 to 13, 28 to 31 and 32. A
  code unit above 127 is left alone by \<open>py_lower\<close> and belongs to neither class.
\<close>

definition lower_char :: "char \<Rightarrow> char" where
  "lower_char c =
     (let n = (of_char c :: nat) in if 65 \<le> n \<and> n \<le> 90 then char_of (n + 32) else c)"

definition py_lower :: "string \<Rightarrow> string" where
  "py_lower s = map lower_char s"

definition is_word :: "char \<Rightarrow> bool" where
  "is_word c =
     (let n = (of_char c :: nat)
      in (48 \<le> n \<and> n \<le> 57) \<or> (65 \<le> n \<and> n \<le> 90) \<or> n = 95 \<or> (97 \<le> n \<and> n \<le> 122))"

definition is_space :: "char \<Rightarrow> bool" where
  "is_space c =
     (let n = (of_char c :: nat) in (9 \<le> n \<and> n \<le> 13) \<or> (28 \<le> n \<and> n \<le> 32))"

text \<open>\<^verbatim>\<open>str.strip()\<close>: leading and trailing whitespace removed.\<close>

definition py_strip :: "string \<Rightarrow> string" where
  "py_strip s = rev (dropWhile is_space (rev (dropWhile is_space s)))"

text \<open>\<^verbatim>\<open>key in text\<close> on strings: \<open>key\<close> occurs in \<open>text\<close> as a contiguous substring.\<close>

fun py_in :: "string \<Rightarrow> string \<Rightarrow> bool" where
  "py_in k [] = (k = [])"
| "py_in k (c # cs) = (prefix k (c # cs) \<or> py_in k cs)"

section \<open>Values shared by the modules\<close>

text \<open>
  JSON values, as \<^verbatim>\<open>json.loads\<close> produces them and as the JSON columns of the task
  table hold them (a float is a rational here). A Python dictionary is an association list in insertion order with
  unique keys: \<open>AList.update\<close> overwrites the value of a key in place and appends a
  new key at the end, as assignment to \<^verbatim>\<open>d[k]\<close> does.
\<close>

datatype json =
    JNull
  | JBool bool
  | JInt int
  | JReal rat
  | JStr string
  | JList "json list"
  | JObj "(string \<times> json) list"

type_synonym jdict = "(string \<times> json) list"

text \<open>\<^verbatim>\<open>{**a, **b}\<close>: the entries of \<open>a\<close>, then each entry of \<open>b\<close> assigned in order.\<close>

definition dict_merge :: "jdict \<Rightarrow> jdict \<Rightarrow> jdict" where
  "dict_merge a b = fold (\<lambda>(k, v) d. AList.update k v d) b a"

section \<open>Task records and the status update of the task base class\<close>

text \<open>
  \<^verbatim>\<open>backend/db/models.py\<close>: the enumeration \<^verbatim>\<open>TaskStatus\<close> and the table
  \<^verbatim>\<open>AsyncTask\<close>, with the columns that \<^verbatim>\<open>DatabaseTask.update_task_status\<close> reads or
  writes. Timestamps are values of an arbitrary type \<open>'t\<close>; the clock
  \<^verbatim>\<open>datetime.utcnow()\<close> is the parameter \<open>now\<close> of the functions below.
\<close>

datatype TaskStatus = PENDING | RUNNING | COMPLETED | FAILED | CANCELLED

record 't AsyncTask =
  task_id :: string
  status :: TaskStatus
  progress :: int
  result :: "jdict option"
  error_message :: "string option"
  started_at :: "'t option"
  completed_at :: "'t option"

text \<open>
  \<^verbatim>\<open>models.TaskStatus(status)\<close>: the enumeration looked up by value; a string that is
  no member's value raises \<^verbatim>\<open>ValueError\<close> (here \<open>None\<close>).
\<close>

definition TaskStatus_of :: "string \<Rightarrow> TaskStatus option" where
  "TaskStatus_of s =
     (if s = ''pending'' then Some PENDING
      else if s = ''running'' then Some RUNNING
      else if s = ''completed'' then Some COMPLETED
      else if s = ''failed'' then Some FAILED
      else if s = ''cancelled'' then Some CANCELLED
      else None)"

text \<open>
  The table is a map from the unique column \<^verbatim>\<open>task_id\<close> to the row, so
  \<^verbatim>\<open>db.query(AsyncTask).filter(AsyncTask.task_id == task_id).first()\<close> is a lookup.
\<close>

type_synonym 't task_table = "string \<rightharpoonup> 't AsyncTask"

text \<open>
  The statements of \<^verbatim>\<open>update_task_status\<close> between the lookup and the commit, one
  definition for each \<^verbatim>\<open>if\<close> of the source. An optional argument that is \<^verbatim>\<open>None\<close>,
  an empty string or an empty dictionary is falsy and skips its statement; only
  \<^verbatim>\<open>progress\<close> is tested with \<^verbatim>\<open>is not None\<close>.

  \<^verbatim>\<open>if status: task.status = models.TaskStatus(status)\<close>. The result is \<open>None\<close> when
  the enumeration lookup raises.
\<close>

definition set_status :: "string option \<Rightarrow> 't AsyncTask \<Rightarrow> 't AsyncTask option" where
  "set_status st t =
     (case st of
        None \<Rightarrow> Some t
      | Some s \<Rightarrow>
          if s = [] then Some t
          else (case TaskStatus_of s of
                  None \<Rightarrow> None
                | Some v \<Rightarrow> Some (t\<lparr>status := v\<rparr>)))"

text \<open>\<^verbatim>\<open>if progress is not None: task.progress = min(100, max(0, progress))\<close>\<close>

definition set_progress :: "int option \<Rightarrow> 't AsyncTask \<Rightarrow> 't AsyncTask" where
  "set_progress p t =
     (case p of None \<Rightarrow> t | Some n \<Rightarrow> t\<lparr>progress := min 100 (max 0 n)\<rparr>)"

text \<open>
  \<^verbatim>\<open>if message: (if task.result is None: task.result = {});
  task.result["current_message"] = message\<close>
\<close>

definition set_message :: "string option \<Rightarrow> 't AsyncTask \<Rightarrow> 't AsyncTask" where
  "set_message msg t =
     (case msg of
        None \<Rightarrow> t
      | Some m \<Rightarrow>
          if m = [] then t
          else t\<lparr>result := Some (AList.update ''current_message'' (JStr m)
                                   (case result t of None \<Rightarrow> [] | Some d \<Rightarrow> d))\<rparr>)"

text \<open>\<^verbatim>\<open>if result: task.result = {**(task.result or {}), **result}\<close>\<close>

definition set_result :: "jdict option \<Rightarrow> 't AsyncTask \<Rightarrow> 't AsyncTask" where
  "set_result res t =
     (case res of
        None \<Rightarrow> t
      | Some r \<Rightarrow>
          if r = [] then t
          else t\<lparr>result := Some (dict_merge (case result t of None \<Rightarrow> [] | Some d \<Rightarrow> d) r)\<rparr>)"

text \<open>\<^verbatim>\<open>if error: task.error_message = error\<close>\<close>

definition set_error :: "string option \<Rightarrow> 't AsyncTask \<Rightarrow> 't AsyncTask" where
  "set_error err t =
     (case err of
        None \<Rightarrow> t
      | Some e \<Rightarrow> if e = [] then t else t\<lparr>error_message := Some e\<rparr>)"

text \<open>
  \<^verbatim>\<open>if status == "running" and not task.started_at: task.started_at = utcnow()\<close> and
  \<^verbatim>\<open>if status in ["completed", "failed"]: task.completed_at = utcnow()\<close>
\<close>

definition set_timestamps :: "'t \<Rightarrow> string option \<Rightarrow> 't AsyncTask \<Rightarrow> 't AsyncTask" where
  "set_timestamps now st t =
     (let t1 = (if st = Some ''running'' \<and> started_at t = None
                then t\<lparr>started_at := Some now\<rparr> else t)
      in if st = Some ''completed'' \<or> st = Some ''failed''
         then t1\<lparr>completed_at := Some now\<rparr> else t1)"

definition update_row ::
  "'t \<Rightarrow> string option \<Rightarrow> int option \<Rightarrow> string option \<Rightarrow> jdict option \<Rightarrow> string option
     \<Rightarrow> 't AsyncTask \<Rightarrow> 't AsyncTask option" where
  "update_row now st p msg res err t =
     (case set_status st t of
        None \<Rightarrow> None
      | Some t1 \<Rightarrow>
          Some (set_timestamps now st
                 (set_error err (set_result res (set_message msg (set_progress p t1))))))"

text \<open>
  \<^verbatim>\<open>DatabaseTask.update_task_status\<close>. A task id that is not in the table logs a
  warning and returns; an exception inside the \<^verbatim>\<open>try\<close> is logged by the
  \<^verbatim>\<open>except Exception\<close> and the session is closed without a commit, so the table is
  unchanged in both cases. The database operations themselves are taken to succeed.
\<close>

definition update_task_status ::
  "'t task_table \<Rightarrow> 't \<Rightarrow> string \<Rightarrow> string option \<Rightarrow> int option \<Rightarrow> string option
     \<Rightarrow> jdict option \<Rightarrow> string option \<Rightarrow> 't task_table" where
  "update_task_status tbl now tid st p msg res err =
     (case tbl tid of
        None \<Rightarrow> tbl
      | Some t \<Rightarrow>
          (case update_row now st p msg res err t of
             None \<Rightarrow> tbl
           | Some t' \<Rightarrow> tbl(tid \<mapsto> t')))"

text \<open>
  \<^verbatim>\<open>DatabaseTask.on_failure\<close>: the exception is given by the name of its type and its
  message (\<^verbatim>\<open>type(exc).__name__\<close> and \<^verbatim>\<open>str(exc)\<close>).
\<close>

definition on_failure :: "'t task_table \<Rightarrow> 't \<Rightarrow> string \<Rightarrow> string \<Rightarrow> string \<Rightarrow> 't task_table" where
  "on_failure tbl now exc_type exc_msg tid =
     update_task_status tbl now tid (Some ''failed'') (Some 0) None None
       (Some (exc_type @ '': '' @ exc_msg))"

text \<open>
  \<^verbatim>\<open>DatabaseTask.on_success\<close>: a return value that is a dictionary is the result
  payload, any other value is wrapped under the key \<^verbatim>\<open>result\<close>.
\<close>

definition on_success :: "'t task_table \<Rightarrow> 't \<Rightarrow> json \<Rightarrow> string \<Rightarrow> 't task_table" where
  "on_success tbl now retval tid =
     update_task_status tbl now tid (Some ''completed'') (Some 100) None
       (Some (case retval of JObj d \<Rightarrow> d | v \<Rightarrow> [(''result'', v)])) None"

text \<open>The status argument is absent, empty or the value of a member of the enumeration.\<close>

definition status_arg_ok :: "string option \<Rightarrow> bool" where
  "status_arg_ok st = (case st of None \<Rightarrow> True | Some s \<Rightarrow> s = [] \<or> TaskStatus_of s \<noteq> None)"

text \<open>Every row of the table has its progress between 0 and 100.\<close>

definition progress_in_range :: "'t task_table \<Rightarrow> bool" where
  "progress_in_range tbl = (\<forall>t \<in> ran tbl. 0 \<le> progress t \<and> progress t \<le> 100)"

text \<open>A table with one running task at 40 percent, used to evaluate the functions.\<close>

definition example_table :: "nat task_table" where
  "example_table =
     [''t1'' \<mapsto> \<lparr>task_id = ''t1'', status = RUNNING, progress = 40, result = None,
                 error_message = None, started_at = Some 3, completed_at = None\<rparr>]"

section \<open>The LLM layer: configuration, responses and the OpenAI binding\<close>

text \<open>
  \<^verbatim>\<open>llm/base.py\<close>. Python floats (temperature, prices, costs, budgets) are modelled as
  exact rationals.
\<close>

datatype LLMProvider = OPENAI | DEEPSEEK | CLAUDE | GEMINI | QWEN | KIMI

record LLMMessage =
  role :: string
  content :: string

record LLMConfig =
  provider :: LLMProvider
  api_key :: string
  model :: string
  base_url :: "string option"
  temperature :: rat
  max_tokens :: "int option"
  timeout :: int
  max_retries :: int
  max_cost_per_request :: "rat option"
  daily_budget :: "rat option"

record LLMResponse =
  r_content :: string
  r_model :: string
  r_provider :: LLMProvider
  tokens_used :: "int option"
  cost :: "rat option"
  finish_reason :: "string option"

text \<open>
  \<^verbatim>\<open>BaseLLM._validate_budget\<close>: \<^verbatim>\<open>False\<close> when a non-zero
  \<^verbatim>\<open>max_cost_per_request\<close> is configured and the estimated cost is above it.
\<close>

definition validate_budget :: "LLMConfig \<Rightarrow> rat \<Rightarrow> bool" where
  "validate_budget cfg estimated_cost =
     (case max_cost_per_request cfg of
        None \<Rightarrow> True
      | Some m \<Rightarrow> if m \<noteq> 0 then (if estimated_cost > m then False else True) else True)"

text \<open>
  \<^verbatim>\<open>OpenAILLM._calculate_cost\<close>: the price table in the order of the dictionary
  literal; the first key that occurs in the lower-cased model name gives the price, and
  the price of \<^verbatim>\<open>gpt-4o\<close> is the default.
\<close>

definition pricing :: "(string \<times> rat) list" where
  "pricing =
     [(''gpt-4o'', 5 / 1000 / 1000),
      (''gpt-4o-mini'', 15 / 100000 / 1000),
      (''gpt-4-turbo'', 1 / 100 / 1000),
      (''gpt-3.5-turbo'', 5 / 10000 / 1000)]"

fun price_lookup :: "(string \<times> rat) list \<Rightarrow> string \<Rightarrow> rat option" where
  "price_lookup [] m = None"
| "price_lookup ((model_key, price) # rest) m =
     (if py_in model_key m then Some price else price_lookup rest m)"

definition calculate_cost :: "LLMConfig \<Rightarrow> int \<Rightarrow> rat" where
  "calculate_cost cfg tokens =
     (case price_lookup pricing (py_lower (model cfg)) of
        Some price \<Rightarrow> of_int tokens * price
      | None \<Rightarrow> of_int tokens * (5 / 1000 / 1000))"

text \<open>
  The request that \<^verbatim>\<open>OpenAILLM.chat\<close> builds (\<^verbatim>\<open>params\<close>, without the extra keyword
  arguments), and what the client library gives back: it raises, or it returns an object
  with a list of choices and an optional usage record.
\<close>

record chat_params =
  p_model :: string
  p_messages :: "(string \<times> string) list"
  p_temperature :: rat
  p_max_tokens :: "int option"
  p_response_format :: "string option"

record raw_choice =
  message_content :: string
  choice_finish_reason :: "string option"

record raw_response =
  choices :: "raw_choice list"
  usage_total_tokens :: "int option"

datatype api_outcome = ApiRaises string | ApiReturns raw_response

text \<open>\<^verbatim>\<open>BaseLLM._prepare_messages\<close>\<close>

definition prepare_messages :: "LLMMessage list \<Rightarrow> (string \<times> string) list" where
  "prepare_messages messages = map (\<lambda>msg. (role msg, content msg)) messages"

definition build_params ::
  "LLMConfig \<Rightarrow> LLMMessage list \<Rightarrow> rat option \<Rightarrow> int option \<Rightarrow> bool \<Rightarrow> chat_params" where
  "build_params cfg messages temperature_arg max_tokens_arg json_mode =
     (let temp = (case temperature_arg of Some x \<Rightarrow> x | None \<Rightarrow> temperature cfg);
          tokens = (case max_tokens_arg of Some x \<Rightarrow> Some x | None \<Rightarrow> max_tokens cfg)
      in \<lparr>p_model = model cfg,
          p_messages = prepare_messages messages,
          p_temperature = temp,
          p_max_tokens = (case tokens of None \<Rightarrow> None | Some x \<Rightarrow> if x \<noteq> 0 then Some x else None),
          p_response_format = (if json_mode then Some ''json_object'' else None)\<rparr>)"

text \<open>
  The body of the \<^verbatim>\<open>try\<close> after the request: the first choice is read (an empty
  list of choices raises \<^verbatim>\<open>IndexError\<close> inside the \<^verbatim>\<open>try\<close>, so it counts as a
  failed attempt), the cost is computed when the token count is present and not zero.
\<close>

definition attempt_once :: "LLMConfig \<Rightarrow> api_outcome \<Rightarrow> string + LLMResponse" where
  "attempt_once cfg out =
     (case out of
        ApiRaises e \<Rightarrow> Inl e
      | ApiReturns response \<Rightarrow>
          (case choices response of
             [] \<Rightarrow> Inl ''list index out of range''
           | c # _ \<Rightarrow>
               Inr \<lparr>r_content = message_content c,
                    r_model = model cfg,
                    r_provider = OPENAI,
                    tokens_used = usage_total_tokens response,
                    cost = (case usage_total_tokens response of
                              None \<Rightarrow> None
                            | Some n \<Rightarrow> if n \<noteq> 0 then Some (calculate_cost cfg n) else None),
                    finish_reason = choice_finish_reason c\<rparr>))"

text \<open>
  The only error \<^verbatim>\<open>chat\<close> raises: the plain
  \<^verbatim>\<open>Exception("OpenAI API call failed after {max_retries} retries: {last_error}")\<close>,
  given by the two values formatted into its message.
\<close>

datatype chat_error = Exception_call_failed int "string option"

text \<open>
  What a call of \<^verbatim>\<open>chat\<close> does besides returning: the number of requests sent to the
  provider and the arguments of \<^verbatim>\<open>time.sleep\<close>, in order.
\<close>

record chat_trace =
  dispatched :: nat
  slept :: "nat list"

text \<open>
  The retry loop \<^verbatim>\<open>for attempt in range(self.config.max_retries)\<close>. The provider is a
  function from the request and the number of the attempt to the outcome of that
  request. An attempt that fails with \<^verbatim>\<open>attempt < max_retries - 1\<close> sleeps
  \<^verbatim>\<open>2 ** attempt\<close> seconds and continues; otherwise the loop is left by \<^verbatim>\<open>break\<close>
  and the exception is raised. A loop that runs out of attempts raises it too.
\<close>

fun chat_attempts ::
  "LLMConfig \<Rightarrow> (nat \<Rightarrow> api_outcome) \<Rightarrow> nat list \<Rightarrow> string option \<Rightarrow> chat_trace
     \<Rightarrow> (chat_error + LLMResponse) \<times> chat_trace" where
  "chat_attempts cfg api [] last_error tr =
     (Inl (Exception_call_failed (max_retries cfg) last_error), tr)"
| "chat_attempts cfg api (attempt # rest) last_error tr =
     (let tr1 = tr\<lparr>dispatched := Suc (dispatched tr)\<rparr>
      in case attempt_once cfg (api attempt) of
           Inr resp \<Rightarrow> (Inr resp, tr1)
         | Inl e \<Rightarrow>
             if int attempt < max_retries cfg - 1
             then chat_attempts cfg api rest (Some e) (tr1\<lparr>slept := slept tr1 @ [2 ^ attempt]\<rparr>)
             else (Inl (Exception_call_failed (max_retries cfg) (Some e)), tr1))"

text \<open>
  \<^verbatim>\<open>OpenAILLM.chat\<close>. The estimated cost of the request is not computed and
  \<^verbatim>\<open>_validate_budget\<close> is not called anywhere on this path.
\<close>

definition chat ::
  "LLMConfig \<Rightarrow> (chat_params \<Rightarrow> nat \<Rightarrow> api_outcome) \<Rightarrow> LLMMessage list \<Rightarrow> rat option
     \<Rightarrow> int option \<Rightarrow> bool \<Rightarrow> (chat_error + LLMResponse) \<times> chat_trace" where
  "chat cfg client messages temperature_arg max_tokens_arg json_mode =
     (let params = build_params cfg messages temperature_arg max_tokens_arg json_mode
      in chat_attempts cfg (client params) [0 ..< nat (max_retries cfg)] None
           \<lparr>dispatched = 0, slept = []\<rparr>)"

text \<open>
  Inputs used to evaluate \<^verbatim>\<open>chat\<close>: a configuration with the dataclass defaults, a
  given retry count and cost ceiling; a provider whose first two requests time out and
  whose later requests succeed; a provider that always times out; and a provider that
  answers every request, billing one million tokens.
\<close>

definition openai_config :: "int \<Rightarrow> rat option \<Rightarrow> LLMConfig" where
  "openai_config n limit =
     \<lparr>provider = OPENAI, api_key = ''sk-test'', model = ''gpt-4o'', base_url = None,
      temperature = 7 / 10, max_tokens = None, timeout = 60, max_retries = n,
      max_cost_per_request = limit, daily_budget = None\<rparr>"

definition ok_response :: "int \<Rightarrow> raw_response" where
  "ok_response n =
     \<lparr>choices = [\<lparr>message_content = ''done'', choice_finish_reason = Some ''stop''\<rparr>],
      usage_total_tokens = Some n\<rparr>"



definition costly :: "chat_params \<Rightarrow> nat \<Rightarrow> api_outcome" where
  "costly params i = ApiReturns (ok_response 1000000)"

definition hello :: "LLMMessage list" where
  "hello = [\<lparr>role = ''user'', content = ''hello''\<rparr>]"

section \<open>Research intent\<close>


datatype PaperType = PT_SURVEY | PT_RESEARCH | PT_ANY






text \<open>
  The three \<^verbatim>\<open>ValueError\<close>s of \<^verbatim>\<open>create_research_intent\<close>. Their messages are
  Chinese text in the source; here each is named by what it says, the second with the
  value that no enumeration accepts.
\<close>

datatype value_error = Keywords_empty | Invalid_parameter string | Start_year_after_end_year

datatype intent_exception = ValueError value_error




section \<open>Stage processors: landscape analysis and draft generation\<close>

text \<open>
  The exceptions that leave the stage functions below, by the name of their Python
  class; \<open>Raised\<close> is an exception of the LLM call, passed on as it came.
\<close>

datatype py_exception =
    PyValueError string
  | PyTypeError string
  | PyAttributeError string
  | Raised string

text \<open>
  The LLM manager, as the stages see it: \<^verbatim>\<open>llm_manager.chat\<close> is given a prompt and
  either raises (\<open>Inl\<close> with the message of the exception) or returns a response with a
  content (\<open>Inr\<close>). Every call is recorded, in order, in a list of the prompts sent.
\<close>

type_synonym llm = "string \<Rightarrow> string + string"

text \<open>\<^verbatim>\<open>d.get(key, default)\<close> and the truthiness of a JSON value.\<close>

definition dict_get :: "jdict \<Rightarrow> string \<Rightarrow> json \<Rightarrow> json" where
  "dict_get d k dflt = (case map_of d k of Some v \<Rightarrow> v | None \<Rightarrow> dflt)"

fun json_truthy :: "json \<Rightarrow> bool" where
  "json_truthy JNull = False"
| "json_truthy (JBool b) = b"
| "json_truthy (JInt n) = (n \<noteq> 0)"
| "json_truthy (JReal x) = (x \<noteq> 0)"
| "json_truthy (JStr s) = (s \<noteq> [])"
| "json_truthy (JList xs) = (xs \<noteq> [])"
| "json_truthy (JObj d) = (d \<noteq> [])"

subsection \<open>\<^verbatim>\<open>modules/landscape_analyzer.py\<close>\<close>

record PaperAnalysis =
  paper_id :: string
  core_problem :: string
  key_method :: string
  technical_approach :: string
  experiment_conclusions :: "string list"
  limitations :: "string list"
  contributions :: "string list"

text \<open>
  The landscape as \<^verbatim>\<open>analyze_landscape\<close> fills it: each field is the JSON value found
  under its key in the reply.
\<close>

record ResearchLandscape =
  clusters :: json
  solved_problems :: json
  partially_solved :: json
  unsolved_problems :: json
  technical_evolution :: json

text \<open>
  One entry of \<^verbatim>\<open>analyses_summary\<close>: index from 1, core problem, key method,
  limitations, for the first 20 analyses.
\<close>

definition analyses_summary :: "PaperAnalysis list \<Rightarrow> (nat \<times> string \<times> string \<times> string list) list" where
  "analyses_summary analyses =
     map (\<lambda>(i, a). (i + 1, core_problem a, key_method a, limitations a))
       (enumerate 0 (take 20 analyses))"

text \<open>
  \<^verbatim>\<open>ResearchLandscapeAnalyzer.analyze_landscape\<close>. The prompt template of
  \<^verbatim>\<open>config.PROMPTS\<close> with \<^verbatim>\<open>json.dumps\<close> of the summary is the parameter \<open>render\<close>,
  and \<^verbatim>\<open>json.loads\<close> is the parameter \<open>loads\<close> (\<open>None\<close> for \<^verbatim>\<open>JSONDecodeError\<close>).
  The result is the value or exception together with the list of prompts sent to the LLM.

  The emptiness test comes first and raises \<^verbatim>\<open>ValueError\<close>. After the LLM call, a reply
  that is not JSON reaches the handler of \<^verbatim>\<open>JSONDecodeError\<close>, whose call of the
  dataclass constructor names fields the dataclass does not have
  (\<^verbatim>\<open>partially_solved_problems\<close>, \<^verbatim>\<open>tech_evolution\<close>) and so raises \<^verbatim>\<open>TypeError\<close>; a
  reply that is JSON but no object raises \<^verbatim>\<open>AttributeError\<close> at \<^verbatim>\<open>.get\<close>, which the
  last handler passes on.
\<close>

definition analyze_landscape ::
  "llm \<Rightarrow> ((nat \<times> string \<times> string \<times> string list) list \<Rightarrow> string) \<Rightarrow> (string \<Rightarrow> json option)
     \<Rightarrow> PaperAnalysis list \<Rightarrow> (py_exception + ResearchLandscape) \<times> string list" where
  "analyze_landscape chat_fn render loads analyses =
     (if analyses = [] then (Inl (PyValueError ''No paper analyses provided''), [])
      else
        (let prompt = render (analyses_summary analyses)
         in case chat_fn prompt of
              Inl e \<Rightarrow> (Inl (Raised e), [prompt])
            | Inr reply \<Rightarrow>
                (case loads reply of
                   None \<Rightarrow>
                     (Inl (PyTypeError ''unexpected keyword argument partially_solved_problems''),
                      [prompt])
                 | Some (JObj result_json) \<Rightarrow>
                     (Inr \<lparr>clusters = dict_get result_json ''clusters'' (JList []),
                           solved_problems = dict_get result_json ''solved_problems'' (JList []),
                           partially_solved =
                             (let v = dict_get result_json ''partially_solved'' (JList [])
                              in if json_truthy v then v
                                 else dict_get result_json ''partially_solved_problems'' (JList [])),
                           unsolved_problems = dict_get result_json ''unsolved_problems'' (JList []),
                           technical_evolution =
                             (let v = dict_get result_json ''technical_evolution'' (JObj [])
                              in if json_truthy v then v
                                 else dict_get result_json ''tech_evolution'' (JObj []))\<rparr>,
                      [prompt])
                 | Some _ \<Rightarrow> (Inl (PyAttributeError ''get''), [prompt]))))"

subsection \<open>\<^verbatim>\<open>modules/landscape_analysis.py\<close>\<close>

record ResearchCluster =
  cluster_name :: json
  papers :: json
  key_themes :: json
  cluster_evolution :: json

record ResearchLandscape_v1 =
  v1_clusters :: "ResearchCluster list"
  v1_solved_problems :: json
  v1_partially_solved :: json
  v1_unsolved_problems :: json
  v1_technical_evolution :: json

text \<open>
  The loop \<^verbatim>\<open>for cluster_data in result_json.get("clusters", [])\<close>: each element must
  be an object, since \<^verbatim>\<open>.get\<close> is called on it. Iterating a string or an object
  yields strings, which have no \<^verbatim>\<open>.get\<close>; a number, a boolean or \<^verbatim>\<open>null\<close> cannot
  be iterated.
\<close>

fun cluster_of :: "json \<Rightarrow> py_exception + ResearchCluster" where
  "cluster_of (JObj cluster_data) =
     Inr \<lparr>cluster_name = dict_get cluster_data ''cluster_name'' (JStr []),
          papers = dict_get cluster_data ''papers'' (JList []),
          key_themes = dict_get cluster_data ''key_themes'' (JList []),
          cluster_evolution = dict_get cluster_data ''technical_evolution'' (JStr [])\<rparr>"
| "cluster_of _ = Inl (PyAttributeError ''get'')"

fun clusters_of_list :: "json list \<Rightarrow> py_exception + ResearchCluster list" where
  "clusters_of_list [] = Inr []"
| "clusters_of_list (x # xs) =
     (case cluster_of x of
        Inl e \<Rightarrow> Inl e
      | Inr c \<Rightarrow> (case clusters_of_list xs of Inl e \<Rightarrow> Inl e | Inr cs \<Rightarrow> Inr (c # cs)))"

fun build_clusters :: "json \<Rightarrow> py_exception + ResearchCluster list" where
  "build_clusters (JList xs) = clusters_of_list xs"
| "build_clusters (JStr s) = (if s = [] then Inr [] else Inl (PyAttributeError ''get''))"
| "build_clusters (JObj d) = (if d = [] then Inr [] else Inl (PyAttributeError ''get''))"
| "build_clusters _ = Inl (PyTypeError ''object is not iterable'')"

text \<open>
  \<^verbatim>\<open>analyze_research_landscape\<close>: the dictionary of analyses is a list of pairs of
  paper id and analysis; \<^verbatim>\<open>prepare_analysis_summary\<close> with the prompt template is the
  parameter \<open>render\<close>. A reply that is not JSON raises \<^verbatim>\<open>ValueError\<close> here. The
  messages of the two \<^verbatim>\<open>ValueError\<close>s are Chinese text in the source and are given
  in English.
\<close>

definition analyze_research_landscape ::
  "llm \<Rightarrow> ((string \<times> PaperAnalysis) list \<Rightarrow> string) \<Rightarrow> (string \<Rightarrow> json option)
     \<Rightarrow> (string \<times> PaperAnalysis) list \<Rightarrow> (py_exception + ResearchLandscape_v1) \<times> string list" where
  "analyze_research_landscape client render loads papers_analysis =
     (if papers_analysis = [] then (Inl (PyValueError ''no paper analyses''), [])
      else
        (let prompt = render papers_analysis
         in case client prompt of
              Inl e \<Rightarrow> (Inl (Raised e), [prompt])
            | Inr result_text \<Rightarrow>
                (case loads result_text of
                   None \<Rightarrow> (Inl (PyValueError ''reply is not valid JSON''), [prompt])
                 | Some (JObj result_json) \<Rightarrow>
                     (case build_clusters (dict_get result_json ''clusters'' (JList [])) of
                        Inl e \<Rightarrow> (Inl e, [prompt])
                      | Inr cs \<Rightarrow>
                          (Inr \<lparr>v1_clusters = cs,
                                v1_solved_problems = dict_get result_json ''solved_problems'' (JList []),
                                v1_partially_solved = dict_get result_json ''partially_solved'' (JList []),
                                v1_unsolved_problems = dict_get result_json ''unsolved_problems'' (JList []),
                                v1_technical_evolution = dict_get result_json ''technical_evolution'' (JObj [])\<rparr>,
                           [prompt]))
                 | Some _ \<Rightarrow> (Inl (PyAttributeError ''get''), [prompt]))))"

subsection \<open>\<^verbatim>\<open>modules/paper_draft_generator.py\<close>\<close>

text \<open>
  The generator reads attributes of the idea and the method it is given and never
  checks their class, so both are modelled as Python objects: lists of attribute names
  and values. Reading an attribute that the object does not have raises
  \<^verbatim>\<open>AttributeError\<close>.
\<close>

type_synonym py_object = "(string \<times> json) list"

definition getattr :: "py_object \<Rightarrow> string \<Rightarrow> py_exception + json" where
  "getattr obj name =
     (case map_of obj name of None \<Rightarrow> Inl (PyAttributeError name) | Some v \<Rightarrow> Inr v)"

text \<open>
  \<^verbatim>\<open>models.py\<close>: \<^verbatim>\<open>PaperSection\<close>, and \<^verbatim>\<open>PaperDraft\<close> with the fields of its
  declaration. A dataclass does not check the types of the values it is given, so a
  field of the draft holds whatever argument was passed for it.
\<close>

record PaperSection =
  section_name :: string
  section_content :: string
  source_type :: string
  citations :: "string list"

datatype draft_arg =
    Value json
  | Section PaperSection
  | Sections "(string \<times> PaperSection) list"

record PaperDraft =
  draft_title :: draft_arg
  draft_abstract :: draft_arg
  draft_introduction :: draft_arg
  draft_related_work :: draft_arg
  draft_method :: draft_arg
  draft_experiments :: draft_arg
  draft_discussion :: draft_arg
  draft_conclusion :: draft_arg
  generated_at :: draft_arg

definition PaperDraft_required :: "string list" where
  "PaperDraft_required =
     [''title'', ''abstract'', ''introduction'', ''related_work'', ''method'',
      ''experiments'', ''discussion'', ''conclusion'']"

text \<open>
  The generated \<^verbatim>\<open>__init__\<close> of the dataclass, called with keyword arguments: a
  keyword that is no field raises \<^verbatim>\<open>TypeError\<close>, and so does a missing field that
  has no default. The default of \<^verbatim>\<open>generated_at\<close> is the current time, the parameter
  \<open>now\<close>.
\<close>

definition PaperDraft_init :: "json \<Rightarrow> (string \<times> draft_arg) list \<Rightarrow> py_exception + PaperDraft" where
  "PaperDraft_init now kwargs =
     (case filter (\<lambda>k. k \<notin> set (PaperDraft_required @ [''generated_at''])) (map fst kwargs) of
        k # _ \<Rightarrow> Inl (PyTypeError (''unexpected keyword argument '' @ k))
      | [] \<Rightarrow>
          (case filter (\<lambda>f. map_of kwargs f = None) PaperDraft_required of
             f # _ \<Rightarrow> Inl (PyTypeError (''missing required argument '' @ f))
           | [] \<Rightarrow>
               (let arg = (\<lambda>f. case map_of kwargs f of Some v \<Rightarrow> v | None \<Rightarrow> Value now)
                in Inr \<lparr>draft_title = arg ''title'',
                         draft_abstract = arg ''abstract'',
                         draft_introduction = arg ''introduction'',
                         draft_related_work = arg ''related_work'',
                         draft_method = arg ''method'',
                         draft_experiments = arg ''experiments'',
                         draft_discussion = arg ''discussion'',
                         draft_conclusion = arg ''conclusion'',
                         generated_at = arg ''generated_at''\<rparr>)))"

text \<open>
  \<^verbatim>\<open>_generate_section\<close> first builds the dictionary of all six prompts, outside its
  \<^verbatim>\<open>try\<close>. The f-strings read the attributes below in this order; an attribute
  under \<open>Join\<close> is the argument of \<^verbatim>\<open>', '.join\<close> and must be iterable (a list of
  strings, a string or a dictionary), or \<^verbatim>\<open>TypeError\<close> is raised.
\<close>

datatype owner = Idea | Method

datatype attr_use = Show owner string | Join owner string

definition prompt_uses :: "attr_use list" where
  "prompt_uses =
     [Show Idea ''title'', Show Idea ''motivation'', Show Idea ''hypothesis'',
      Show Method ''algorithm_framework'', Join Method ''innovation_points'',
      Show Idea ''title'', Show Idea ''motivation'', Show Idea ''hypothesis'',
      Show Idea ''contributions'',
      Show Idea ''title'', Show Idea ''motivation'',
      Show Method ''algorithm_framework'', Show Method ''key_modules'',
      Show Method ''data_requirements'',
      Join Method ''evaluation_metrics'', Join Method ''expected_challenges'',
      Show Idea ''title'', Show Idea ''contributions'', Join Method ''innovation_points'']"

fun is_JStr :: "json \<Rightarrow> bool" where
  "is_JStr (JStr s) = True"
| "is_JStr _ = False"

fun joinable :: "json \<Rightarrow> bool" where
  "joinable (JList xs) = list_all is_JStr xs"
| "joinable (JStr s) = True"
| "joinable (JObj d) = True"
| "joinable _ = False"

fun read_attrs :: "py_object \<Rightarrow> py_object \<Rightarrow> attr_use list \<Rightarrow> py_exception option" where
  "read_attrs idea method [] = None"
| "read_attrs idea method (Show who name # rest) =
     (case getattr (case who of Idea \<Rightarrow> idea | Method \<Rightarrow> method) name of
        Inl e \<Rightarrow> Some e
      | Inr v \<Rightarrow> read_attrs idea method rest)"
| "read_attrs idea method (Join who name # rest) =
     (case getattr (case who of Idea \<Rightarrow> idea | Method \<Rightarrow> method) name of
        Inl e \<Rightarrow> Some e
      | Inr v \<Rightarrow>
          if joinable v then read_attrs idea method rest
          else Some (PyTypeError ''can only join an iterable''))"

text \<open>
  What draft generation does besides returning: the calls of the progress callback
  (step, total, section name) and the prompts sent to the LLM, in order.
\<close>

datatype draft_event = Progress nat nat string | Prompt string

text \<open>
  \<^verbatim>\<open>_generate_section\<close>. The texts of the prompts are the parameter \<open>render\<close> (section
  key, idea, method). An exception of the LLM call is caught and turned into the
  placeholder \<^verbatim>\<open>[Section generation failed: ...]\<close>.
\<close>

definition generate_section ::
  "llm \<Rightarrow> (string \<Rightarrow> py_object \<Rightarrow> py_object \<Rightarrow> string) \<Rightarrow> string \<Rightarrow> py_object \<Rightarrow> py_object
     \<Rightarrow> (py_exception + string) \<times> draft_event list" where
  "generate_section chat_fn render section_key idea method =
     (case read_attrs idea method prompt_uses of
        Some e \<Rightarrow> (Inl e, [])
      | None \<Rightarrow>
          (let prompt = render section_key idea method
           in case chat_fn prompt of
                Inr reply \<Rightarrow> (Inr reply, [Prompt prompt])
              | Inl e \<Rightarrow> (Inr (''[Section generation failed: '' @ e @ '']''), [Prompt prompt])))"

text \<open>
  \<^verbatim>\<open>section_order\<close>, with the Chinese display names of the sections given in
  English.
\<close>

definition section_order :: "(string \<times> string) list" where
  "section_order =
     [(''abstract'', ''Abstract''), (''introduction'', ''Introduction''),
      (''related_work'', ''Related Work''), (''method'', ''Method''),
      (''experiment'', ''Experiment Design''), (''conclusion'', ''Conclusion'')]"

text \<open>
  The loop of \<^verbatim>\<open>generate_draft\<close> over the enumerated section order: the progress
  callback, when one is given, then the section text, stored under the section key.
\<close>

fun generate_sections ::
  "llm \<Rightarrow> (string \<Rightarrow> py_object \<Rightarrow> py_object \<Rightarrow> string) \<Rightarrow> bool \<Rightarrow> py_object \<Rightarrow> py_object
     \<Rightarrow> (nat \<times> string \<times> string) list \<Rightarrow> (string \<times> PaperSection) list \<Rightarrow> draft_event list
     \<Rightarrow> (py_exception + (string \<times> PaperSection) list) \<times> draft_event list" where
  "generate_sections chat_fn render has_callback idea method [] sections events0 = (Inr sections, events0)"
| "generate_sections chat_fn render has_callback idea method ((i, section_key, name) # rest)
     sections events0 =
     (let events1 = (if has_callback
                  then events0 @ [Progress i (length section_order) (''Generating '' @ name @ ''...'')]
                  else events0)
      in case generate_section chat_fn render section_key idea method of
           (Inl e, events) \<Rightarrow> (Inl e, events1 @ events)
         | (Inr body, events) \<Rightarrow>
             generate_sections chat_fn render has_callback idea method rest
               (AList.update section_key
                  \<lparr>section_name = name, section_content = body,
                   source_type = ''ai_generated'', citations = []\<rparr> sections)
               (events1 @ events))"

text \<open>
  \<^verbatim>\<open>PaperDraftGenerator.generate_draft\<close>. After the loop the draft is built by
  \<^verbatim>\<open>PaperDraft(id=..., idea_id=idea.id, title=idea.title, sections=sections)\<close>, with
  \<open>new_id\<close> for the fresh UUID.
\<close>

definition generate_draft ::
  "llm \<Rightarrow> (string \<Rightarrow> py_object \<Rightarrow> py_object \<Rightarrow> string) \<Rightarrow> bool \<Rightarrow> string \<Rightarrow> json
     \<Rightarrow> py_object \<Rightarrow> py_object \<Rightarrow> (py_exception + PaperDraft) \<times> draft_event list" where
  "generate_draft chat_fn render has_callback new_id now idea method =
     (case generate_sections chat_fn render has_callback idea method
             (enumerate 0 section_order) [] [] of
        (Inl e, events0) \<Rightarrow> (Inl e, events0)
      | (Inr sections, events0) \<Rightarrow>
          (case getattr idea ''id'' of
             Inl e \<Rightarrow> (Inl e, events0)
           | Inr idea_id \<Rightarrow>
               (case getattr idea ''title'' of
                  Inl e \<Rightarrow> (Inl e, events0)
                | Inr title \<Rightarrow>
                    (case PaperDraft_init now
                            [(''id'', Value (JStr new_id)), (''idea_id'', Value idea_id),
                             (''title'', Value title), (''sections'', Sections sections)] of
                       Inl e \<Rightarrow> (Inl e, events0)
                     | Inr draft \<Rightarrow> (Inr draft, events0)))))"

text \<open>
  Inputs used to evaluate draft generation: an idea and a method with every attribute
  the generator reads, prompts named by their section key, and an LLM that raises on
  the prompt of the method section and answers every other prompt.
\<close>

definition example_idea :: py_object where
  "example_idea =
     [(''id'', JStr ''idea_1''), (''title'', JStr ''Sparse routing''),
      (''motivation'', JStr ''cost''), (''hypothesis'', JStr ''routing helps''),
      (''contributions'', JStr ''a router'')]"

definition example_method :: py_object where
  "example_method =
     [(''algorithm_framework'', JStr ''two stages''), (''key_modules'', JList []),
      (''data_requirements'', JStr ''none''), (''evaluation_metrics'', JList [JStr ''accuracy'']),
      (''expected_challenges'', JList []), (''innovation_points'', JList [])]"

text \<open>
  An idea with the fields that the dataclass \<^verbatim>\<open>ResearchIdea\<close> of \<^verbatim>\<open>models.py\<close>
  declares.
\<close>

definition models_idea :: py_object where
  "models_idea =
     [(''idea_id'', JStr ''idea_1''), (''title'', JStr ''Sparse routing''),
      (''motivation'', JStr ''cost''), (''core_hypothesis'', JStr ''routing helps''),
      (''expected_contribution'', JStr ''a router''),
      (''difference_from_existing'', JStr ''sparse''),
      (''feasibility_score'', JReal (1 / 2)), (''novelty_score'', JReal (1 / 2))]"

definition key_prompt :: "string \<Rightarrow> py_object \<Rightarrow> py_object \<Rightarrow> string" where
  "key_prompt section_key idea method = section_key"

definition method_fails :: llm where
  "method_fails prompt =
     (if prompt = ''method'' then Inl ''rate limit'' else Inr (''text of '' @ prompt))"

section \<open>Literature fusion: title normalisation and deduplication\<close>

text \<open>
  \<^verbatim>\<open>re.sub(r'\s+', ' ', title)\<close>: every maximal run of whitespace becomes one space.
\<close>

function collapse_ws :: "string \<Rightarrow> string" where
  "collapse_ws [] = []"
| "collapse_ws (c # cs) =
     (if is_space c then CHR '' '' # collapse_ws (dropWhile is_space cs)
      else c # collapse_ws cs)"
  by pat_completeness auto
termination
  by (relation "measure length") (auto simp: le_imp_less_Suc length_dropWhile_le)

text \<open>
  \<^verbatim>\<open>normalize_title\<close> (\<^verbatim>\<open>modules/multi_source_search.py\<close>): lower case, then
  \<^verbatim>\<open>re.sub(r'[^\w\s]', '', title)\<close> removes every character that is neither a word
  character nor whitespace, then runs of whitespace are collapsed, then the ends are
  stripped.
\<close>

definition normalize_title :: "string \<Rightarrow> string" where
  "normalize_title title =
     py_strip (collapse_ws (filter (\<lambda>c. is_word c \<or> is_space c) (py_lower title)))"


text \<open>
  \<^verbatim>\<open>models.py\<close>: \<^verbatim>\<open>PaperMetadata\<close>. Equality of two papers is the equality of the
  dataclass, field by field. The relevance score, a float, is a rational here.
\<close>

record PaperMetadata =
  title :: string
  authors :: "string list"
  abstract :: string
  url :: string
  published :: string
  paper_type :: "PaperType option"
  journal :: "string option"
  relevance_score :: rat
  arxiv_id :: "string option"
  partition_label :: "string option"

text \<open>
  The state of the loop of \<^verbatim>\<open>merge_and_deduplicate\<close>: the set of arXiv ids seen, the
  dictionary from normalised titles to the source and paper kept for them, and the list
  of papers kept.
\<close>

record dedup_state =
  seen_arxiv_ids :: "string list"
  seen_titles :: "(string \<times> (string \<times> PaperMetadata)) list"
  unique_papers :: "PaperMetadata list"

text \<open>\<^verbatim>\<open>source_priority.get(source, 1)\<close>\<close>

definition source_priority :: "string \<Rightarrow> nat" where
  "source_priority source =
     (if source = ''arxiv'' then 3 else if source = ''semantic_scholar'' then 2 else 1)"

text \<open>
  The part of the loop body after the arXiv id test: the title test, which replaces the
  paper kept for a title by one of a source of higher priority.
\<close>

definition title_step :: "string \<Rightarrow> PaperMetadata \<Rightarrow> dedup_state \<Rightarrow> dedup_state" where
  "title_step source paper st =
     (let title_norm = normalize_title (title paper)
      in case map_of (seen_titles st) title_norm of
           Some (existing_source, existing_paper) \<Rightarrow>
             if source_priority source > source_priority existing_source
             then st\<lparr>unique_papers :=
                        filter (\<lambda>p. p \<noteq> existing_paper) (unique_papers st) @ [paper],
                      seen_titles := AList.update title_norm (source, paper) (seen_titles st)\<rparr>
             else st
         | None \<Rightarrow>
             st\<lparr>seen_titles := AList.update title_norm (source, paper) (seen_titles st),
                unique_papers := unique_papers st @ [paper]\<rparr>)"

text \<open>
  The loop body: a paper with a non-empty arXiv id that was seen before is skipped
  (\<^verbatim>\<open>continue\<close>), whatever its source; otherwise its id is recorded and the title
  test follows.
\<close>

definition dedup_step :: "string \<times> PaperMetadata \<Rightarrow> dedup_state \<Rightarrow> dedup_state" where
  "dedup_step sp st =
     (case sp of (source, paper) \<Rightarrow>
        (case arxiv_id paper of
           None \<Rightarrow> title_step source paper st
         | Some i \<Rightarrow>
             if i = [] then title_step source paper st
             else if i \<in> set (seen_arxiv_ids st) then st
             else title_step source paper (st\<lparr>seen_arxiv_ids := i # seen_arxiv_ids st\<rparr>)))"

text \<open>
  \<^verbatim>\<open>merge_and_deduplicate\<close>: the dictionary of results per source is a list of pairs
  in the order of the dictionary; the papers are collected source by source and the
  loop runs over them in that order.
\<close>

definition all_papers :: "(string \<times> PaperMetadata list) list \<Rightarrow> (string \<times> PaperMetadata) list" where
  "all_papers multi_source_results =
     concat (map (\<lambda>(source, papers). map (\<lambda>paper. (source, paper)) papers) multi_source_results)"

definition merge_and_deduplicate :: "(string \<times> PaperMetadata list) list \<Rightarrow> PaperMetadata list" where
  "merge_and_deduplicate multi_source_results =
     unique_papers
       (fold dedup_step (all_papers multi_source_results)
          \<lparr>seen_arxiv_ids = [], seen_titles = [], unique_papers = []\<rparr>)"

text \<open>
  The number of papers of a list that carry the arXiv id \<open>i\<close>, and the invariant of
  the loop: a non-empty id is carried by at most one paper kept, and by none when the id
  was not seen yet.
\<close>

definition id_count :: "string \<Rightarrow> PaperMetadata list \<Rightarrow> nat" where
  "id_count i ps = length (filter (\<lambda>p. arxiv_id p = Some i) ps)"

definition dedup_inv :: "dedup_state \<Rightarrow> bool" where
  "dedup_inv st =
     (\<forall>i. i \<noteq> [] \<longrightarrow>
        id_count i (unique_papers st) \<le> 1
        \<and> (i \<notin> set (seen_arxiv_ids st) \<longrightarrow> id_count i (unique_papers st) = 0))"

text \<open>
  One paper as each of the two sources returns it: same arXiv id and title, different
  URL.
\<close>

definition paper_from :: "string \<Rightarrow> PaperMetadata" where
  "paper_from link =
     \<lparr>title = ''Graph Neural Networks'', authors = [''A. Author''], abstract = ''We study graphs.'',
      url = link, published = ''2023-01-01'', paper_type = Some PT_RESEARCH, journal = None,
      relevance_score = 0, arxiv_id = Some ''2301.00001'', partition_label = None\<rparr>"

section \<open>Idea ranking\<close>

text \<open>
  \<^verbatim>\<open>models.py\<close>: \<^verbatim>\<open>ResearchIdea\<close>. The two scores are floats in the source and
  exact rationals here, and so is the composite score.
\<close>

record ResearchIdea =
  idea_id :: string
  idea_title :: string
  motivation :: string
  core_hypothesis :: string
  expected_contribution :: string
  difference_from_existing :: string
  feasibility_score :: rat
  novelty_score :: rat

text \<open>The local function \<^verbatim>\<open>score\<close> of \<^verbatim>\<open>rank_ideas\<close>.\<close>

definition score :: "ResearchIdea \<Rightarrow> rat" where
  "score idea = 6 / 10 * novelty_score idea + 4 / 10 * feasibility_score idea"

text \<open>
  \<^verbatim>\<open>rank_ideas\<close>: \<^verbatim>\<open>sorted(ideas, key=score, reverse=True)\<close>. Python sorts with a
  stable ascending sort on the keys, and for \<^verbatim>\<open>reverse=True\<close> it reverses the list
  before the sort and the result after it; \<open>sort_key\<close> is the stable ascending
  insertion sort of the list library.
\<close>

definition rank_ideas :: "ResearchIdea list \<Rightarrow> ResearchIdea list" where
  "rank_ideas ideas = rev (sort_key score (rev ideas))"

text \<open>An idea with the given id, novelty and feasibility, used to evaluate the ranking.\<close>

definition idea_with :: "string \<Rightarrow> rat \<Rightarrow> rat \<Rightarrow> ResearchIdea" where
  "idea_with name nov feas =
     \<lparr>idea_id = name, idea_title = name, motivation = [], core_hypothesis = [],
      expected_contribution = [], difference_from_existing = [],
      feasibility_score = feas, novelty_score = nov\<rparr>"

section \<open>Evaluating string functions\<close>

text \<open>The equations that evaluate the string functions on literals.\<close>

lemmas str_eval =
  py_lower_def lower_char_def is_word_def is_space_def py_strip_def Let_def
  char_of_def bit_Suc_0_iff

section \<open>Properties of the status update\<close>

lemma progress_set_message [simp]: "progress (set_message msg t) = progress t"
  by (simp add: set_message_def split: option.splits)

lemma progress_set_result [simp]: "progress (set_result res t) = progress t"
  by (simp add: set_result_def split: option.splits)

lemma progress_set_error [simp]: "progress (set_error err t) = progress t"
  by (simp add: set_error_def split: option.splits)

lemma progress_set_timestamps [simp]: "progress (set_timestamps now st t) = progress t"
  by (simp add: set_timestamps_def Let_def)

lemma progress_set_status: "set_status st t = Some t1 \<Longrightarrow> progress t1 = progress t"
  by (auto simp: set_status_def split: option.splits if_splits)

lemma progress_set_progress:
  "progress (set_progress p t) = (case p of None \<Rightarrow> progress t | Some n \<Rightarrow> min 100 (max 0 n))"
  by (simp add: set_progress_def split: option.splits)

lemma progress_update_row:
  "update_row now st p msg res err t = Some t' \<Longrightarrow>
   progress t' = (case p of None \<Rightarrow> progress t | Some n \<Rightarrow> min 100 (max 0 n))"
  by (auto simp: update_row_def progress_set_progress
           dest!: progress_set_status split: option.splits)

lemma set_status_ok: "status_arg_ok st \<Longrightarrow> \<exists>t1. set_status st t = Some t1"
  by (auto simp: status_arg_ok_def set_status_def split: option.splits)

lemma update_row_ok: "status_arg_ok st \<Longrightarrow> \<exists>t'. update_row now st p msg res err t = Some t'"
  using set_status_ok [of st t] by (auto simp: update_row_def)

lemma update_row_in_range:
  assumes "update_row now st p msg res err t = Some t'"
    and "0 \<le> progress t \<and> progress t \<le> 100"
  shows "0 \<le> progress t' \<and> progress t' \<le> 100"
  using assms progress_update_row [OF assms(1)] by (cases p) auto

lemma update_task_status_in_range:
  assumes "progress_in_range tbl"
  shows "progress_in_range (update_task_status tbl now tid st p msg res err)"
proof (cases "tbl tid")
  case None
  then show ?thesis using assms by (simp add: update_task_status_def)
next
  case (Some t)
  show ?thesis
  proof (cases "update_row now st p msg res err t")
    case None
    then show ?thesis using assms Some by (simp add: update_task_status_def)
  next
    case (Some t')
    from \<open>tbl tid = Some t\<close> assms have "0 \<le> progress t \<and> progress t \<le> 100"
      by (auto simp: progress_in_range_def ran_def)
    with Some have new: "0 \<le> progress t' \<and> progress t' \<le> 100"
      by (rule update_row_in_range)
    have "ran (tbl(tid \<mapsto> t')) \<subseteq> insert t' (ran tbl)"
      by (auto simp: ran_def split: if_splits)
    with new assms have "progress_in_range (tbl(tid \<mapsto> t'))"
      unfolding progress_in_range_def by blast
    with Some \<open>tbl tid = Some t\<close> show ?thesis by (simp add: update_task_status_def)
  qed
qed

text \<open>
  C10. A call of \<^verbatim>\<open>update_task_status\<close> with any integer progress \<open>p\<close> on a task that
  is in the table (and a status argument the enumeration accepts) stores
  \<open>min 100 (max 0 p)\<close>, a value between 0 and 100, as the task's progress; and whatever
  the arguments are, a table all of whose rows have their progress between 0 and 100
  keeps that property.
\<close>

theorem update_task_status_clamps_progress:
  assumes "tbl tid = Some t" and "status_arg_ok st" and "progress_in_range tbl"
  shows "map_option progress (update_task_status tbl now tid st (Some p) msg res err tid)
           = Some (min 100 (max 0 p))
       \<and> 0 \<le> min 100 (max 0 p) \<and> min 100 (max 0 p) \<le> 100
       \<and> progress_in_range (update_task_status tbl now' tid' st' p' msg' res' err')"
proof -
  obtain t' where t': "update_row now st (Some p) msg res err t = Some t'"
    using update_row_ok [OF assms(2), of now "Some p" msg res err t] by blast
  have "progress t' = min 100 (max 0 p)"
    using progress_update_row [OF t'] by simp
  with t' assms(1) have "map_option progress
      (update_task_status tbl now tid st (Some p) msg res err tid) = Some (min 100 (max 0 p))"
    by (simp add: update_task_status_def)
  moreover have "progress_in_range (update_task_status tbl now' tid' st' p' msg' res' err')"
    using assms(3) by (rule update_task_status_in_range)
  ultimately show ?thesis by simp
qed

theorem update_task_status_clamps_progress_witness:
  "example_table ''t1'' \<noteq> None \<and> status_arg_ok None \<and> progress_in_range example_table
   \<and> map_option progress
        (update_task_status example_table 9 ''t1'' None (Some 250) (Some ''step'') None None ''t1'')
       = Some 100
   \<and> progress_in_range
        (update_task_status example_table 9 ''t1'' (Some ''running'') (Some (- 5)) None None None)"
proof -
  have a: "example_table ''t1'' = Some \<lparr>task_id = ''t1'', status = RUNNING, progress = 40,
      result = None, error_message = None, started_at = Some 3, completed_at = None\<rparr>"
    by (simp add: example_table_def)
  have b: "status_arg_ok None" by (simp add: status_arg_ok_def)
  have c: "progress_in_range example_table"
    by (simp add: progress_in_range_def example_table_def)
  show ?thesis
    using update_task_status_clamps_progress
            [where tbl = example_table and tid = "''t1''" and st = None and now = 9
               and p = 250 and msg = "Some ''step''" and res = None and err = None
               and now' = 9 and tid' = "''t1''" and st' = "Some ''running''"
               and p' = "Some (- 5)" and msg' = None and res' = None and err' = None, OF a b c]
          a b c
    by simp
qed

text \<open>
  C3 (as the code has it). When a task raises, \<^verbatim>\<open>on_failure\<close> sets the status of its
  row to \<^verbatim>\<open>failed\<close>, stores the message \<^verbatim>\<open>"<type>: <message>"\<close> of the exception, and
  sets the progress to 0: it passes \<^verbatim>\<open>progress=0\<close> to \<^verbatim>\<open>update_task_status\<close>, so the
  last recorded progress is overwritten.
\<close>

theorem on_failure_marks_failed_and_zeroes_progress:
  assumes "tbl tid = Some t"
  shows "map_option (\<lambda>t'. (status t', error_message t', progress t'))
           (on_failure tbl now exc_type exc_msg tid tid)
         = Some (FAILED, Some (exc_type @ '': '' @ exc_msg), 0)"
  using assms
  by (simp add: on_failure_def update_task_status_def update_row_def set_status_def
        TaskStatus_of_def set_progress_def set_message_def set_result_def set_error_def
        set_timestamps_def Let_def)

theorem on_failure_marks_failed_and_zeroes_progress_witness:
  "example_table ''t1'' \<noteq> None
   \<and> map_option (\<lambda>t'. (status t', error_message t', progress t'))
        (on_failure example_table 9 ''ValueError'' ''boom'' ''t1'' ''t1'')
       = Some (FAILED, Some ''ValueError: boom'', 0)"
proof -
  have a: "example_table ''t1'' = Some \<lparr>task_id = ''t1'', status = RUNNING, progress = 40,
      result = None, error_message = None, started_at = Some 3, completed_at = None\<rparr>"
    by (simp add: example_table_def)
  show ?thesis
    using on_failure_marks_failed_and_zeroes_progress
            [where tbl = example_table and tid = "''t1''" and now = 9
               and exc_type = "''ValueError''" and exc_msg = "''boom''", OF a] a
    by simp
qed

text \<open>
  The claim that a failure leaves the progress at its last recorded value fails on the
  example table: the task was at 40 and is at 0 after \<^verbatim>\<open>on_failure\<close>.
\<close>

theorem on_failure_keeps_progress_counterexample:
  "map_option progress (example_table ''t1'') = Some 40
   \<and> map_option progress (on_failure example_table 9 ''ValueError'' ''boom'' ''t1'' ''t1'') = Some 0
   \<and> map_option progress (on_failure example_table 9 ''ValueError'' ''boom'' ''t1'' ''t1'')
       \<noteq> map_option progress (example_table ''t1'')"
  by (simp add: example_table_def on_failure_def update_task_status_def update_row_def
        set_status_def TaskStatus_of_def set_progress_def set_message_def set_result_def
        set_error_def set_timestamps_def Let_def)

section \<open>Properties of the retry loop\<close>







text \<open>
  C2 (the behaviour of the code). \<^verbatim>\<open>chat\<close> does not enforce the cost ceiling: with
  \<^verbatim>\<open>max_cost_per_request = 0.01\<close> and a provider that bills one million tokens of
  \<^verbatim>\<open>gpt-4o\<close>, the request is dispatched and the response is returned with a cost of
  5, although \<^verbatim>\<open>_validate_budget\<close> rejects that cost.
\<close>

theorem chat_ignores_cost_ceiling:
  "max_cost_per_request (openai_config 3 (Some (1 / 100))) = Some (1 / 100)
   \<and> chat (openai_config 3 (Some (1 / 100))) costly hello None None False
       = (Inr \<lparr>r_content = ''done'', r_model = ''gpt-4o'', r_provider = OPENAI,
               tokens_used = Some 1000000, cost = Some 5, finish_reason = Some ''stop''\<rparr>,
          \<lparr>dispatched = 1, slept = []\<rparr>)
   \<and> validate_budget (openai_config 3 (Some (1 / 100))) 5 = False"
proof -
  have m: "max_retries (openai_config 3 (Some (1 / 100))) = 3" by (simp add: openai_config_def)
  have c: "attempt_once (openai_config 3 (Some (1 / 100))) (ApiReturns (ok_response 1000000))
     = Inr \<lparr>r_content = ''done'', r_model = ''gpt-4o'', r_provider = OPENAI,
               tokens_used = Some 1000000, cost = Some 5, finish_reason = Some ''stop''\<rparr>"
    by (simp add: attempt_once_def ok_response_def openai_config_def calculate_cost_def
        pricing_def str_eval)
  show ?thesis
    by (simp add: chat_def Let_def m upt_rec costly_def c validate_budget_def)
       (simp add: openai_config_def)
qed

section \<open>Properties of intent construction\<close>




section \<open>Properties of the stage processors\<close>

text \<open>
  C9. Landscape analysis on an empty set of analyses fails with \<^verbatim>\<open>ValueError\<close> (the
  validation error of the code) and sends no prompt to the LLM, whatever the LLM, the
  template and the parser are; this holds for the analyzer class and for the function of
  \<^verbatim>\<open>modules/landscape_analysis.py\<close>.
\<close>

theorem landscape_empty_fails_before_llm:
  "analyze_landscape chat_fn render loads []
     = (Inl (PyValueError ''No paper analyses provided''), [])
   \<and> analyze_research_landscape client render' loads' []
     = (Inl (PyValueError ''no paper analyses''), [])"
  by (simp add: analyze_landscape_def analyze_research_landscape_def)

text \<open>With at least one analysis, exactly one prompt is sent.\<close>

lemma analyze_landscape_one_call:
  "analyses \<noteq> [] \<Longrightarrow> length (snd (analyze_landscape chat_fn render loads analyses)) = 1"
  by (auto simp: analyze_landscape_def Let_def split: sum.splits option.splits json.splits)

lemma analyze_research_landscape_one_call:
  "pa \<noteq> [] \<Longrightarrow> length (snd (analyze_research_landscape client render loads pa)) = 1"
  by (auto simp: analyze_research_landscape_def Let_def
           split: sum.splits option.splits json.splits)

text \<open>
  The constructor call of \<^verbatim>\<open>generate_draft\<close> passes the keyword \<^verbatim>\<open>id\<close>, which is
  no field of the dataclass \<^verbatim>\<open>PaperDraft\<close>: the call raises \<^verbatim>\<open>TypeError\<close>, and so
  \<^verbatim>\<open>generate_draft\<close> returns no draft for any idea, method and LLM.
\<close>

lemma PaperDraft_init_rejects_id:
  "PaperDraft_init now ((''id'', v) # rest) = Inl (PyTypeError ''unexpected keyword argument id'')"
  by (simp add: PaperDraft_init_def PaperDraft_required_def)

lemma generate_draft_never_returns:
  "isl (fst (generate_draft chat_fn render has_callback new_id now idea method))"
  by (simp add: generate_draft_def PaperDraft_init_rejects_id split: prod.splits sum.splits)

lemma read_attrs_example: "read_attrs example_idea example_method prompt_uses = None"
  by (simp add: prompt_uses_def example_idea_def example_method_def getattr_def)

lemma generate_section_example:
  "generate_section method_fails key_prompt k example_idea example_method
   = (Inr (if k = ''method'' then ''[Section generation failed: rate limit]''
           else ''text of '' @ k), [Prompt k])"
  by (simp add: generate_section_def read_attrs_example key_prompt_def method_fails_def)

lemma generate_section_isolates_llm_failure:
  "read_attrs idea method prompt_uses = None \<Longrightarrow>
   fst (generate_section chat_fn render k idea method)
     = Inr (case chat_fn (render k idea method) of
              Inr reply \<Rightarrow> reply
            | Inl e \<Rightarrow> ''[Section generation failed: '' @ e @ '']'')"
  by (simp add: generate_section_def Let_def split: sum.splits)

text \<open>
  With an idea that has the fields of the dataclass of \<^verbatim>\<open>models.py\<close>, the first
  section already raises \<^verbatim>\<open>AttributeError\<close>, before any prompt is sent: the prompts
  read \<^verbatim>\<open>idea.hypothesis\<close>, which that dataclass does not declare.
\<close>

lemma generate_draft_models_idea:
  "generate_draft chat_fn render False new_id now models_idea example_method
     = (Inl (PyAttributeError ''hypothesis''), [])"
  by (simp add: generate_draft_def section_order_def generate_section_def prompt_uses_def
        models_idea_def getattr_def)

text \<open>
  C5 (the behaviour of the code). With an LLM that raises on the prompt of the method
  section only, the loop over the sections ends with all six sections stored, the
  method section holding the failure placeholder and the other five the replies of the
  LLM; \<^verbatim>\<open>generate_draft\<close> then raises \<^verbatim>\<open>TypeError\<close> at the constructor of the draft
  instead of returning it.
\<close>

theorem generate_draft_method_failure:
  "generate_sections method_fails key_prompt False example_idea example_method
       (enumerate 0 section_order) [] []
     = (Inr [(''abstract'', \<lparr>section_name = ''Abstract'', section_content = ''text of abstract'',
                            source_type = ''ai_generated'', citations = []\<rparr>),
             (''introduction'', \<lparr>section_name = ''Introduction'',
                            section_content = ''text of introduction'',
                            source_type = ''ai_generated'', citations = []\<rparr>),
             (''related_work'', \<lparr>section_name = ''Related Work'',
                            section_content = ''text of related_work'',
                            source_type = ''ai_generated'', citations = []\<rparr>),
             (''method'', \<lparr>section_name = ''Method'',
                            section_content = ''[Section generation failed: rate limit]'',
                            source_type = ''ai_generated'', citations = []\<rparr>),
             (''experiment'', \<lparr>section_name = ''Experiment Design'',
                            section_content = ''text of experiment'',
                            source_type = ''ai_generated'', citations = []\<rparr>),
             (''conclusion'', \<lparr>section_name = ''Conclusion'',
                            section_content = ''text of conclusion'',
                            source_type = ''ai_generated'', citations = []\<rparr>)],
        [Prompt ''abstract'', Prompt ''introduction'', Prompt ''related_work'',
         Prompt ''method'', Prompt ''experiment'', Prompt ''conclusion''])
   \<and> generate_draft method_fails key_prompt False ''uuid-1'' (JStr ''2026'') example_idea example_method
     = (Inl (PyTypeError ''unexpected keyword argument id''),
        [Prompt ''abstract'', Prompt ''introduction'', Prompt ''related_work'',
         Prompt ''method'', Prompt ''experiment'', Prompt ''conclusion''])"
proof -
  have s: "generate_sections method_fails key_prompt False example_idea example_method
       (enumerate 0 section_order) [] []
     = (Inr [(''abstract'', \<lparr>section_name = ''Abstract'', section_content = ''text of abstract'',
                            source_type = ''ai_generated'', citations = []\<rparr>),
             (''introduction'', \<lparr>section_name = ''Introduction'',
                            section_content = ''text of introduction'',
                            source_type = ''ai_generated'', citations = []\<rparr>),
             (''related_work'', \<lparr>section_name = ''Related Work'',
                            section_content = ''text of related_work'',
                            source_type = ''ai_generated'', citations = []\<rparr>),
             (''method'', \<lparr>section_name = ''Method'',
                            section_content = ''[Section generation failed: rate limit]'',
                            source_type = ''ai_generated'', citations = []\<rparr>),
             (''experiment'', \<lparr>section_name = ''Experiment Design'',
                            section_content = ''text of experiment'',
                            source_type = ''ai_generated'', citations = []\<rparr>),
             (''conclusion'', \<lparr>section_name = ''Conclusion'',
                            section_content = ''text of conclusion'',
                            source_type = ''ai_generated'', citations = []\<rparr>)],
        [Prompt ''abstract'', Prompt ''introduction'', Prompt ''related_work'',
         Prompt ''method'', Prompt ''experiment'', Prompt ''conclusion''])"
    by (simp add: section_order_def generate_section_example)
  have g: "getattr example_idea ''id'' = Inr (JStr ''idea_1'')"
    "getattr example_idea ''title'' = Inr (JStr ''Sparse routing'')"
    by (simp_all add: getattr_def example_idea_def)
  have d: "generate_draft method_fails key_prompt False ''uuid-1'' (JStr ''2026'')
             example_idea example_method
     = (Inl (PyTypeError ''unexpected keyword argument id''),
        [Prompt ''abstract'', Prompt ''introduction'', Prompt ''related_work'',
         Prompt ''method'', Prompt ''experiment'', Prompt ''conclusion''])"
    unfolding generate_draft_def s by (simp add: g PaperDraft_init_rejects_id)
  from s d show ?thesis by (rule conjI)
qed

section \<open>Properties of title normalisation\<close>




lemma collapse_ws_nonspace:
  "\<not> is_space c \<Longrightarrow> collapse_ws (c # cs) = c # collapse_ws cs"
  by simp
















lemma normalize_title_example:
  "normalize_title ''  Graph-Neural   Networks: A  Survey! '' = ''graphneural networks a survey''"
  by (simp add: normalize_title_def str_eval)

section \<open>Properties of deduplication\<close>

text \<open>
  The part of the claim that holds: the output has at most one record for each
  non-empty arXiv id, whatever the order of the sources.
\<close>
lemma id_count_filter_le: "id_count i (filter Q ps) \<le> id_count i ps"
  unfolding id_count_def by (induction ps) auto

lemma id_count_snoc:
  "id_count i (ps @ [p]) = id_count i ps + (if arxiv_id p = Some i then 1 else 0)"
  by (simp add: id_count_def)

lemma title_step_cases:
  "seen_arxiv_ids (title_step source paper st) = seen_arxiv_ids st
   \<and> (unique_papers (title_step source paper st) = unique_papers st
      \<or> (\<exists>Q. unique_papers (title_step source paper st)
               = filter Q (unique_papers st) @ [paper]))"
proof (cases "map_of (seen_titles st) (normalize_title (title paper))")
  case None
  have "\<exists>Q. unique_papers st = filter Q (unique_papers st)"
    by (rule exI [of _ "\<lambda>p. True"]) simp
  with None show ?thesis
    by (simp add: title_step_def Let_def)
next
  case (Some sp)
  then show ?thesis
    by (cases sp) (auto simp: title_step_def Let_def)
qed

lemma dedup_step_inv:
  assumes "dedup_inv st"
  shows "dedup_inv (dedup_step (source, paper) st)"
proof -
  have fresh: "dedup_inv (title_step source paper st')"
    if inv: "dedup_inv st'"
      and new: "\<And>i. arxiv_id paper = Some i \<Longrightarrow> i \<noteq> [] \<Longrightarrow> id_count i (unique_papers st') = 0
                      \<and> i \<in> set (seen_arxiv_ids st')"
    for st'
  proof -
    from title_step_cases [of source paper st']
    have s: "seen_arxiv_ids (title_step source paper st') = seen_arxiv_ids st'"
      and u: "unique_papers (title_step source paper st') = unique_papers st'
            \<or> (\<exists>Q. unique_papers (title_step source paper st')
                   = filter Q (unique_papers st') @ [paper])"
      by simp_all
    from u show ?thesis
    proof
      assume "unique_papers (title_step source paper st') = unique_papers st'"
      with s inv show ?thesis by (simp add: dedup_inv_def)
    next
      assume "\<exists>Q. unique_papers (title_step source paper st')
                   = filter Q (unique_papers st') @ [paper]"
      then obtain Q where q: "unique_papers (title_step source paper st')
                   = filter Q (unique_papers st') @ [paper]" by blast
      show ?thesis
        unfolding dedup_inv_def
      proof (intro allI impI)
        fix i :: string
        assume ne: "i \<noteq> []"
        have le: "id_count i (filter Q (unique_papers st')) \<le> id_count i (unique_papers st')"
          by (rule id_count_filter_le)
        from inv ne have a: "id_count i (unique_papers st') \<le> 1"
          and b: "i \<notin> set (seen_arxiv_ids st') \<longrightarrow> id_count i (unique_papers st') = 0"
          by (simp_all add: dedup_inv_def)
        show "id_count i (unique_papers (title_step source paper st')) \<le> 1
              \<and> (i \<notin> set (seen_arxiv_ids (title_step source paper st'))
                  \<longrightarrow> id_count i (unique_papers (title_step source paper st')) = 0)"
        proof (cases "arxiv_id paper = Some i")
          case True
          with new ne have "id_count i (unique_papers st') = 0" "i \<in> set (seen_arxiv_ids st')"
            by simp_all
          with le True show ?thesis by (simp add: q s id_count_snoc)
        next
          case False
          with le a b show ?thesis by (auto simp: q s id_count_snoc)
        qed
      qed
    qed
  qed
  show ?thesis
  proof (cases "arxiv_id paper")
    case None
    then have "dedup_step (source, paper) st = title_step source paper st"
      by (simp add: dedup_step_def)
    moreover have "dedup_inv (title_step source paper st)"
      using assms None by (intro fresh) simp_all
    ultimately show ?thesis by simp
  next
    case (Some j)
    show ?thesis
    proof (cases "j = []")
      case True
      with Some have "dedup_step (source, paper) st = title_step source paper st"
        by (simp add: dedup_step_def)
      moreover have "dedup_inv (title_step source paper st)"
        using assms Some True by (intro fresh) simp_all
      ultimately show ?thesis by simp
    next
      case False
      show ?thesis
      proof (cases "j \<in> set (seen_arxiv_ids st)")
        case True
        with Some False assms show ?thesis by (simp add: dedup_step_def)
      next
        case nin: False
        let ?st = "st\<lparr>seen_arxiv_ids := j # seen_arxiv_ids st\<rparr>"
        from Some False nin
        have e: "dedup_step (source, paper) st = title_step source paper ?st"
          by (simp add: dedup_step_def)
        have i1: "dedup_inv ?st" using assms by (auto simp: dedup_inv_def)
        from assms False nin have "id_count j (unique_papers st) = 0"
          by (simp add: dedup_inv_def)
        with Some have "\<And>i. arxiv_id paper = Some i \<Longrightarrow> i \<noteq> [] \<Longrightarrow>
            id_count i (unique_papers ?st) = 0 \<and> i \<in> set (seen_arxiv_ids ?st)"
          by simp
        with i1 have "dedup_inv (title_step source paper ?st)" by (rule fresh)
        with e show ?thesis by simp
      qed
    qed
  qed
qed

lemma fold_dedup_inv: "dedup_inv st \<Longrightarrow> dedup_inv (fold dedup_step sps st)"
proof (induction sps arbitrary: st)
  case Nil
  then show ?case by simp
next
  case (Cons sp sps)
  then show ?case by (cases sp) (simp add: dedup_step_inv)
qed

lemma merge_at_most_one_per_arxiv_id:
  "i \<noteq> [] \<Longrightarrow>
   length (filter (\<lambda>p. arxiv_id p = Some i) (merge_and_deduplicate results)) \<le> 1"
proof -
  assume ne: "i \<noteq> []"
  have "dedup_inv \<lparr>seen_arxiv_ids = [], seen_titles = [], unique_papers = []\<rparr>"
    by (simp add: dedup_inv_def id_count_def)
  then have "dedup_inv (fold dedup_step (all_papers results)
                 \<lparr>seen_arxiv_ids = [], seen_titles = [], unique_papers = []\<rparr>)"
    by (rule fold_dedup_inv)
  with ne show ?thesis
    by (simp add: dedup_inv_def id_count_def merge_and_deduplicate_def)
qed

text \<open>
  C4 (the behaviour of the code). Two records of the same paper carry the same arXiv
  id, one from Semantic Scholar and one from arXiv. When the results of Semantic
  Scholar come first in the dictionary, the record kept is the one of Semantic Scholar:
  the arXiv id test skips every later record with a seen id before the priority of the
  sources is looked at. With arXiv first, the arXiv record is kept. The output depends
  on the order in which the sources are traversed.
\<close>

theorem merge_keeps_first_seen_arxiv_id:
  "merge_and_deduplicate
     [(''semantic_scholar'', [paper_from ''https://www.semanticscholar.org/paper/1'']),
      (''arxiv'', [paper_from ''https://arxiv.org/abs/2301.00001''])]
     = [paper_from ''https://www.semanticscholar.org/paper/1'']
   \<and> merge_and_deduplicate
     [(''arxiv'', [paper_from ''https://arxiv.org/abs/2301.00001'']),
      (''semantic_scholar'', [paper_from ''https://www.semanticscholar.org/paper/1''])]
     = [paper_from ''https://arxiv.org/abs/2301.00001'']"
  by (simp add: merge_and_deduplicate_def all_papers_def dedup_step_def title_step_def
        paper_from_def Let_def)

section \<open>Properties of idea ranking\<close>




lemma rank_ideas_example:
  "map idea_id (rank_ideas [idea_with ''a'' (1/2) (1/2), idea_with ''b'' (9/10) (1/10),
                            idea_with ''c'' (1/2) (1/2), idea_with ''d'' 0 0])
   = [''b'', ''a'', ''c'', ''d'']"
  by (simp add: rank_ideas_def score_def idea_with_def)

end
